theory Spec2Isabelle
  imports Main "HOL-Library.Sublist"
begin

unbundle bit_operations_syntax

section \<open>The syslog appender of log4cplus (src/syslogappender.cxx)\<close>

text \<open>
  The model follows the narrow-character build, where \<open>tstring\<close> is \<open>std::string\<close>
  and \<open>LOG4CPLUS_TSTRING_TO_STRING\<close> is the identity: a string is a list of bytes and
  \<open>size ()\<close> is its length. C++ \<open>int\<close> values are modelled as \<open>int\<close>; the code
  only compares them, combines small constants bitwise and prints them.
\<close>

subsection \<open>Priority and facility codes (lines 36--75)\<close>

text \<open>The priority codes of the source's own table.\<close>

definition LOG_EMERG :: int where "LOG_EMERG = 0"
definition LOG_ALERT :: int where "LOG_ALERT = 1"
definition LOG_CRIT :: int where "LOG_CRIT = 2"
definition LOG_ERR :: int where "LOG_ERR = 3"
definition LOG_WARNING :: int where "LOG_WARNING = 4"
definition LOG_NOTICE :: int where "LOG_NOTICE = 5"
definition LOG_INFO :: int where "LOG_INFO = 6"
definition LOG_DEBUG :: int where "LOG_DEBUG = 7"

text \<open>
  The facility macros that \<open>parseFacility\<close> tests with \<open>#ifdef\<close>. Which of them
  exist, and with which value, depends on the platform: with \<open>syslog.h\<close> they come from
  that header, without it from the table of lines 50--73. A platform is therefore a
  partial map from the macro to its value; \<open>None\<close> is "not defined".
\<close>

datatype facility_macro =
    LOG_KERN | LOG_USER | LOG_MAIL | LOG_DAEMON | LOG_AUTH | LOG_SYSLOG
  | LOG_LPR | LOG_NEWS | LOG_UUCP | LOG_CRON | LOG_AUTHPRIV | LOG_FTP
  | LOG_NTP | LOG_SECURITY | LOG_CONSOLE
  | LOG_LOCAL0 | LOG_LOCAL1 | LOG_LOCAL2 | LOG_LOCAL3
  | LOG_LOCAL4 | LOG_LOCAL5 | LOG_LOCAL6 | LOG_LOCAL7

type_synonym facility_codes = "facility_macro \<Rightarrow> int option"

text \<open>The table the source defines itself when \<open>syslog.h\<close> is absent.\<close>

fun own_facility_codes :: facility_codes where
  "own_facility_codes LOG_KERN = Some (push_bit 3 0)"
| "own_facility_codes LOG_USER = Some (push_bit 3 1)"
| "own_facility_codes LOG_MAIL = Some (push_bit 3 2)"
| "own_facility_codes LOG_DAEMON = Some (push_bit 3 3)"
| "own_facility_codes LOG_AUTH = Some (push_bit 3 4)"
| "own_facility_codes LOG_SYSLOG = Some (push_bit 3 5)"
| "own_facility_codes LOG_LPR = Some (push_bit 3 6)"
| "own_facility_codes LOG_NEWS = Some (push_bit 3 7)"
| "own_facility_codes LOG_UUCP = Some (push_bit 3 8)"
| "own_facility_codes LOG_CRON = Some (push_bit 3 9)"
| "own_facility_codes LOG_AUTHPRIV = Some (push_bit 3 10)"
| "own_facility_codes LOG_FTP = Some (push_bit 3 11)"
| "own_facility_codes LOG_NTP = Some (push_bit 3 12)"
| "own_facility_codes LOG_SECURITY = Some (push_bit 3 13)"
| "own_facility_codes LOG_CONSOLE = Some (push_bit 3 14)"
| "own_facility_codes LOG_LOCAL0 = Some (push_bit 3 16)"
| "own_facility_codes LOG_LOCAL1 = Some (push_bit 3 17)"
| "own_facility_codes LOG_LOCAL2 = Some (push_bit 3 18)"
| "own_facility_codes LOG_LOCAL3 = Some (push_bit 3 19)"
| "own_facility_codes LOG_LOCAL4 = Some (push_bit 3 20)"
| "own_facility_codes LOG_LOCAL5 = Some (push_bit 3 21)"
| "own_facility_codes LOG_LOCAL6 = Some (push_bit 3 22)"
| "own_facility_codes LOG_LOCAL7 = Some (push_bit 3 23)"

subsection \<open>Framework log levels\<close>

text \<open>
  \<open>LogLevel\<close> is an integer type. The four thresholds that \<open>getSysLogLevel\<close> compares
  with are constants of a header that is not part of the source file, so they are
  parameters of the model.
\<close>

record log_levels =
  INFO_LOG_LEVEL :: int
  WARN_LOG_LEVEL :: int
  ERROR_LOG_LEVEL :: int
  FATAL_LOG_LEVEL :: int

definition levels_ordered :: "log_levels \<Rightarrow> bool" where
  "levels_ordered L \<longleftrightarrow>
     INFO_LOG_LEVEL L \<le> WARN_LOG_LEVEL L \<and>
     WARN_LOG_LEVEL L \<le> ERROR_LOG_LEVEL L \<and>
     ERROR_LOG_LEVEL L \<le> FATAL_LOG_LEVEL L"

subsection \<open>\<open>getSysLogLevel\<close> (lines 364--384)\<close>

definition getSysLogLevel :: "log_levels \<Rightarrow> int \<Rightarrow> int" where
  "getSysLogLevel L ll =
     (if ll < INFO_LOG_LEVEL L then LOG_DEBUG
      else if ll < WARN_LOG_LEVEL L then LOG_INFO
      else if ll < ERROR_LOG_LEVEL L then LOG_WARNING
      else if ll < FATAL_LOG_LEVEL L then LOG_ERR
      else if ll = FATAL_LOG_LEVEL L then LOG_CRIT
      else LOG_ALERT)"

subsection \<open>Collaborators outside the source file\<close>

text \<open>
  Modelled from the spec: \<open>helpers::convertIntegerToString\<close> and
  \<open>helpers::convertIntegerToNarrowString\<close> are not in the source file, and neither is the
  stream's integer output. The spec calls the result the decimal representation (section 3:
  "a decimal octet count"; section 6: "its byte length in decimal"): the digits without
  leading zeros or grouping, with a minus sign for a negative number; for the stream this
  is the output of the classic locale.
\<close>

fun decimal_digits :: "nat \<Rightarrow> string" where
  "decimal_digits n =
     (if n < 10 then [''0123456789'' ! n]
      else decimal_digits (n div 10) @ [''0123456789'' ! (n mod 10)])"

declare decimal_digits.simps [simp del]

definition convertIntegerToString :: "int \<Rightarrow> string" where
  "convertIntegerToString i =
     (if i < 0 then CHR ''-'' # decimal_digits (nat (- i)) else decimal_digits (nat i))"

definition convertIntegerToNarrowString :: "nat \<Rightarrow> string" where
  "convertIntegerToNarrowString n = decimal_digits n"

text \<open>The number a string of decimal digits stands for; used to state what "decimal" means.\<close>

definition digit_value :: "char \<Rightarrow> nat" where
  "digit_value c = of_char c - 48"

definition decimal_value :: "string \<Rightarrow> nat" where
  "decimal_value ds = foldl (\<lambda>acc c. 10 * acc + digit_value c) 0 ds"

definition is_digit :: "char \<Rightarrow> bool" where
  "is_digit c \<longleftrightarrow> c \<in> set ''0123456789''"

text \<open>
  Modelled from the spec: \<open>helpers::toLower\<close> is not in the source file. The spec
  (section 4.1) speaks of a lower-cased name and a case-insensitive match: each upper-case
  ASCII letter becomes its lower-case letter, every other byte stays.
\<close>

definition tolower_char :: "char \<Rightarrow> char" where
  "tolower_char c =
     (case map_of (zip ''ABCDEFGHIJKLMNOPQRSTUVWXYZ'' ''abcdefghijklmnopqrstuvwxyz'') c of
        Some l \<Rightarrow> l
      | None \<Rightarrow> c)"

definition toLower :: "string \<Rightarrow> string" where
  "toLower s = map tolower_char s"

text \<open>
  What the appender does to the outside world is recorded as a list of effects, in the
  order of the calls: lines for the diagnostic sink \<open>helpers::getLogLog ()\<close> with their
  level, socket constructions and writes, calls of the connector thread, \<open>openlog\<close>.
\<close>

datatype diag_level = Debug | Warn | Error

datatype effect =
    LogLog diag_level string
  | SocketOpen string int bool bool
  | SocketWrite string
  | ConnectorStart
  | ConnectorTrigger
  | OpenLog "string option"

datatype RemoteSyslogType = RSTUdp | RSTTcp

datatype append_func = AppendLocal | AppendRemote

record InternalLoggingEvent =
  getLogLevel :: int
  getLoggerName :: string
  getTimestamp :: int
  getMessage :: string

text \<open>
  The collaborators whose answers the appender uses: the host name lookup, the time
  formatter, the process id, the layout (the text that \<open>formatAndAppend\<close> appends for an
  event), whether a socket constructed for (host, port, udp, ipv6) is open, and whether
  writing a buffer to the socket succeeds.
\<close>

record collaborators =
  getHostname :: "bool \<Rightarrow> string option"
  getFormattedTime :: "string \<Rightarrow> int \<Rightarrow> bool \<Rightarrow> string"
  get_process_id :: int
  formatAndAppend :: "InternalLoggingEvent \<Rightarrow> string"
  socket_isOpen :: "string \<Rightarrow> int \<Rightarrow> bool \<Rightarrow> bool \<Rightarrow> bool"
  socket_write :: "string \<Rightarrow> bool"

text \<open>The compile-time configuration: the two feature macros and the constants of absent headers.\<close>

record build =
  SINGLE_THREADED :: bool
  HAVE_SYSLOG_H :: bool
  facility_codes :: facility_codes
  levels :: log_levels

subsection \<open>\<open>useIdent\<close>, \<open>fallback_facility\<close>, \<open>parseFacility\<close>, \<open>substrOrNil\<close> (lines 84--222)\<close>

definition useIdent :: "string \<Rightarrow> string option" where
  "useIdent s = (if s = [] then None else Some s)"

definition fallback_facility :: "facility_codes \<Rightarrow> int" where
  "fallback_facility P = (case P LOG_USER of Some c \<Rightarrow> c | None \<Rightarrow> 0)"

text \<open>A branch of the \<open>else if\<close> chain exists only where the macro is defined.\<close>

definition parseFacility :: "facility_codes \<Rightarrow> string \<Rightarrow> int \<times> effect list" where
  "parseFacility P text =
     (if text = [] then (fallback_facility P, [])
      else if P LOG_AUTH \<noteq> None \<and> text = ''auth'' then (the (P LOG_AUTH), [])
      else if P LOG_AUTHPRIV \<noteq> None \<and> text = ''authpriv'' then (the (P LOG_AUTHPRIV), [])
      else if P LOG_CONSOLE \<noteq> None \<and> text = ''console'' then (the (P LOG_CONSOLE), [])
      else if P LOG_CRON \<noteq> None \<and> text = ''cron'' then (the (P LOG_CRON), [])
      else if P LOG_DAEMON \<noteq> None \<and> text = ''daemon'' then (the (P LOG_DAEMON), [])
      else if P LOG_FTP \<noteq> None \<and> text = ''ftp'' then (the (P LOG_FTP), [])
      else if P LOG_KERN \<noteq> None \<and> text = ''kern'' then (the (P LOG_KERN), [])
      else if P LOG_LOCAL0 \<noteq> None \<and> text = ''local0'' then (the (P LOG_LOCAL0), [])
      else if P LOG_LOCAL1 \<noteq> None \<and> text = ''local1'' then (the (P LOG_LOCAL1), [])
      else if P LOG_LOCAL2 \<noteq> None \<and> text = ''local2'' then (the (P LOG_LOCAL2), [])
      else if P LOG_LOCAL3 \<noteq> None \<and> text = ''local3'' then (the (P LOG_LOCAL3), [])
      else if P LOG_LOCAL4 \<noteq> None \<and> text = ''local4'' then (the (P LOG_LOCAL4), [])
      else if P LOG_LOCAL5 \<noteq> None \<and> text = ''local5'' then (the (P LOG_LOCAL5), [])
      else if P LOG_LOCAL6 \<noteq> None \<and> text = ''local6'' then (the (P LOG_LOCAL6), [])
      else if P LOG_LOCAL7 \<noteq> None \<and> text = ''local7'' then (the (P LOG_LOCAL7), [])
      else if P LOG_LPR \<noteq> None \<and> text = ''lpr'' then (the (P LOG_LPR), [])
      else if P LOG_MAIL \<noteq> None \<and> text = ''mail'' then (the (P LOG_MAIL), [])
      else if P LOG_NEWS \<noteq> None \<and> text = ''news'' then (the (P LOG_NEWS), [])
      else if P LOG_NTP \<noteq> None \<and> text = ''ntp'' then (the (P LOG_NTP), [])
      else if P LOG_SECURITY \<noteq> None \<and> text = ''security'' then (the (P LOG_SECURITY), [])
      else if P LOG_SYSLOG \<noteq> None \<and> text = ''syslog'' then (the (P LOG_SYSLOG), [])
      else if P LOG_USER \<noteq> None \<and> text = ''user'' then (the (P LOG_USER), [])
      else if P LOG_UUCP \<noteq> None \<and> text = ''uucp'' then (the (P LOG_UUCP), [])
      else (fallback_facility P, [LogLog Error (''Unknown syslog facility: '' @ text)]))"

text \<open>\<open>str.substr (0, limit)\<close> starts at 0, which is never out of range: it is \<open>take\<close>.\<close>

definition substrOrNil :: "string \<Rightarrow> nat \<Rightarrow> string" where
  "substrOrNil str limit = (if str = [] then ''-'' else take limit str)"

text \<open>The name each facility macro is matched with, as the chain above pairs them.\<close>

fun facility_name :: "facility_macro \<Rightarrow> string" where
  "facility_name LOG_AUTH = ''auth''"
| "facility_name LOG_AUTHPRIV = ''authpriv''"
| "facility_name LOG_CONSOLE = ''console''"
| "facility_name LOG_CRON = ''cron''"
| "facility_name LOG_DAEMON = ''daemon''"
| "facility_name LOG_FTP = ''ftp''"
| "facility_name LOG_KERN = ''kern''"
| "facility_name LOG_LOCAL0 = ''local0''"
| "facility_name LOG_LOCAL1 = ''local1''"
| "facility_name LOG_LOCAL2 = ''local2''"
| "facility_name LOG_LOCAL3 = ''local3''"
| "facility_name LOG_LOCAL4 = ''local4''"
| "facility_name LOG_LOCAL5 = ''local5''"
| "facility_name LOG_LOCAL6 = ''local6''"
| "facility_name LOG_LOCAL7 = ''local7''"
| "facility_name LOG_LPR = ''lpr''"
| "facility_name LOG_MAIL = ''mail''"
| "facility_name LOG_NEWS = ''news''"
| "facility_name LOG_NTP = ''ntp''"
| "facility_name LOG_SECURITY = ''security''"
| "facility_name LOG_SYSLOG = ''syslog''"
| "facility_name LOG_USER = ''user''"
| "facility_name LOG_UUCP = ''uucp''"

text \<open>A name is recognized on a platform if it is the name of a macro the platform defines.\<close>

definition recognized :: "facility_codes \<Rightarrow> string \<Rightarrow> bool" where
  "recognized P text \<longleftrightarrow> (\<exists>m. P m \<noteq> None \<and> text = facility_name m)"

subsection \<open>The appender's state\<close>

text \<open>
  The data members the functions below read or write. \<open>appendFunc\<close> is the stored member
  function pointer, \<open>None\<close> for \<open>nullptr\<close>. The socket object and the connector thread
  live with the collaborators; their calls appear as effects.
\<close>

record SysLogAppender =
  ident :: string
  facility :: int
  appendFunc :: "append_func option"
  host :: string
  port :: int
  remoteSyslogType :: RemoteSyslogType
  connected :: bool
  ipv6 :: bool
  identStr :: string
  hostname :: string

text \<open>
  The configuration object of the second constructor, seen through the four getters the
  constructor calls: \<open>getProperty\<close> returns the value or the empty string; \<open>getBool\<close>,
  \<open>getInt\<close> and \<open>getString\<close> store into their first argument and return whether they
  did, modelled as an optional value.
\<close>

record Properties =
  getProperty :: "string \<Rightarrow> string"
  getBool :: "string \<Rightarrow> bool option"
  getInt :: "string \<Rightarrow> int option"
  getString :: "string \<Rightarrow> string option"

subsection \<open>\<open>openSocket\<close> and \<open>initConnector\<close> (lines 529--552)\<close>

text \<open>\<open>static_cast<unsigned short> (port)\<close> keeps the port modulo \<open>2 ^ 16\<close>.\<close>

definition failed_to_connect :: "SysLogAppender \<Rightarrow> string" where
  "failed_to_connect a =
     ''SysLogAppender- failed to connect to '' @ host a @ '':'' @ convertIntegerToString (port a)"

definition openSocket :: "collaborators \<Rightarrow> SysLogAppender \<Rightarrow> SysLogAppender \<times> effect list" where
  "openSocket C a =
     (let udp = (remoteSyslogType a = RSTUdp);
          p16 = port a mod 65536;
          a' = a\<lparr>connected := socket_isOpen C (host a) p16 udp (ipv6 a)\<rparr>
      in (a', SocketOpen (host a) p16 udp (ipv6 a)
              # (if \<not> connected a' then [LogLog Error (failed_to_connect a')] else [])))"

definition initConnector :: "build \<Rightarrow> SysLogAppender \<Rightarrow> SysLogAppender \<times> effect list" where
  "initConnector B a =
     (if \<not> SINGLE_THREADED B then (a\<lparr>connected := True\<rparr>, [ConnectorStart]) else (a, []))"

subsection \<open>The constructors for a remote collector (lines 251--320)\<close>

definition hostname_or_nil :: "collaborators \<Rightarrow> bool \<Rightarrow> string" where
  "hostname_or_nil C fqdn = (case getHostname C fqdn of Some n \<Rightarrow> n | None \<Rightarrow> ''-'')"

text \<open>\<open>SysLogAppender (id, h, p, f, rst, ipv6_, fqdn)\<close>; \<open>id'\<close> is the source's \<open>id\<close>.\<close>

definition SysLogAppender_remote ::
  "build \<Rightarrow> collaborators \<Rightarrow> string \<Rightarrow> string \<Rightarrow> int \<Rightarrow> string \<Rightarrow> RemoteSyslogType
     \<Rightarrow> bool \<Rightarrow> bool \<Rightarrow> SysLogAppender \<times> effect list" where
  "SysLogAppender_remote B C id' h p f rst ipv6' fqdn =
     (let (fac, e0) = parseFacility (facility_codes B) (toLower f);
          a0 = \<lparr>ident = id', facility = fac, appendFunc = Some AppendRemote, host = h,
                port = p, remoteSyslogType = rst, connected = False, ipv6 = ipv6',
                identStr = id', hostname = hostname_or_nil C fqdn\<rparr>;
          (a1, e1) = openSocket C a0;
          (a2, e2) = initConnector B a1
      in (a2, e0 @ e1 @ e2))"

text \<open>
  Modelled from the spec: the diagnostic sink \<open>helpers::LogLog\<close> is not in the source
  file. Its \<open>error\<close> takes the message and a throw flag; every call of the source file
  leaves the flag out except the one of lines 283--285, which passes \<open>true\<close>. Section 7
  of the spec calls that case (no local syslog on the platform) fatal to the local path,
  logged once, with no send afterwards: the line is logged and the call throws, so the
  constructor is left by the exception and no appender exists.
\<close>

datatype cxx_exception = runtime_error string

text \<open>
  The remote host of the second constructor: the property \<open>host\<close> if it is set, else
  the property \<open>SyslogHost\<close> if that is set, else the empty string the member starts with.
\<close>

definition configured_host :: "Properties \<Rightarrow> string" where
  "configured_host props =
     (case getString props ''host'' of
        Some x \<Rightarrow> x
      | None \<Rightarrow> (case getString props ''SyslogHost'' of Some x \<Rightarrow> x | None \<Rightarrow> []))"

text \<open>
  \<open>SysLogAppender (properties)\<close>. With an empty host the appender is a local one, or,
  without \<open>syslog.h\<close>, the constructor reports that local syslog is not available with
  the throw flag set and ends with the exception (\<open>Inl\<close>, with the effects up to it);
  otherwise it opens the socket and starts the connector. Modelled from the spec: the
  initial value of the member \<open>ipv6\<close> is in the absent header; section 6 gives the
  option's default as false.
\<close>

definition SysLogAppender_properties ::
  "build \<Rightarrow> collaborators \<Rightarrow> Properties
     \<Rightarrow> (cxx_exception \<times> effect list) + (SysLogAppender \<times> effect list)" where
  "SysLogAppender_properties B C props =
     (let id' = getProperty props ''ident'';
          (fac, e0) = parseFacility (facility_codes B) (toLower (getProperty props ''facility''));
          udp = (case getBool props ''udp'' of Some b \<Rightarrow> b | None \<Rightarrow> True);
          v6 = (case getBool props ''IPv6'' of Some b \<Rightarrow> b | None \<Rightarrow> False);
          fqdn = (case getBool props ''fqdn'' of Some b \<Rightarrow> b | None \<Rightarrow> True);
          h = configured_host props;
          a0 = \<lparr>ident = id', facility = fac, appendFunc = None, host = h,
                port = 0, remoteSyslogType = (if udp then RSTUdp else RSTTcp),
                connected = False, ipv6 = v6, identStr = id',
                hostname = hostname_or_nil C fqdn\<rparr>
      in if h = [] then
           (if HAVE_SYSLOG_H B
            then Inr (a0\<lparr>appendFunc := Some AppendLocal\<rparr>, e0 @ [OpenLog (useIdent id')])
            else Inl (runtime_error ''SysLogAppender- local syslog not available'',
                      e0 @ [LogLog Error ''SysLogAppender- local syslog not available'']))
         else
           (let a1 = a0\<lparr>port := (case getInt props ''port'' of Some n \<Rightarrow> n | None \<Rightarrow> 514),
                          appendFunc := Some AppendRemote\<rparr>;
                (a2, e2) = openSocket C a1;
                (a3, e3) = initConnector B a2
            in Inr (a3, e0 @ e2 @ e3)))"

subsection \<open>\<open>appendRemote\<close> (lines 412--494)\<close>

definition remoteTimeFormat :: string where
  "remoteTimeFormat = ''%Y-%m-%dT%H:%M:%S.%qZ''"

text \<open>The text collected in the scratch pad's stream: the header fields, then the layout's text.\<close>

definition remoteMessage ::
  "build \<Rightarrow> collaborators \<Rightarrow> SysLogAppender \<Rightarrow> InternalLoggingEvent \<Rightarrow> string" where
  "remoteMessage B C a ev =
     (let level = getSysLogLevel (levels B) (getLogLevel ev)
      in ''<'' @ convertIntegerToString (level OR facility a) @ ''>''
         @ convertIntegerToString 1
         @ '' '' @ getFormattedTime C remoteTimeFormat (getTimestamp ev) True
         @ '' '' @ substrOrNil (hostname a) 255
         @ '' '' @ substrOrNil (ident a) 48
         @ '' '' @ convertIntegerToString (get_process_id C)
         @ '' '' @ substrOrNil (getLoggerName ev) 32
         @ '' - ''
         @ formatAndAppend C ev)"

text \<open>The octet-counting frame of a stream transport (lines 470--479).\<close>

definition frame :: "RemoteSyslogType \<Rightarrow> string \<Rightarrow> string" where
  "frame rst chstr =
     (if rst \<noteq> RSTUdp
      then (convertIntegerToNarrowString (length chstr) @ '' '') @ chstr
      else chstr)"

text \<open>Lines 440--493: build the message, frame it, write it, and react to a failed write.\<close>

definition sendRemote ::
  "build \<Rightarrow> collaborators \<Rightarrow> InternalLoggingEvent \<Rightarrow> SysLogAppender
     \<Rightarrow> SysLogAppender \<times> effect list" where
  "sendRemote B C ev a =
     (let chstr = frame (remoteSyslogType a) (remoteMessage B C a ev);
          ret = socket_write C chstr
      in if \<not> ret
         then (a\<lparr>connected := False\<rparr>,
               [SocketWrite chstr,
                LogLog Warn ''SysLogAppender::appendRemote- socket write failed'']
               @ (if \<not> SINGLE_THREADED B then [ConnectorTrigger] else []))
         else (a, [SocketWrite chstr]))"

definition appendRemote ::
  "build \<Rightarrow> collaborators \<Rightarrow> InternalLoggingEvent \<Rightarrow> SysLogAppender
     \<Rightarrow> SysLogAppender \<times> effect list" where
  "appendRemote B C ev a =
     (if \<not> connected a then
        (if \<not> SINGLE_THREADED B then (a, [ConnectorTrigger])
         else
           (let (a1, e1) = openSocket C a
            in if \<not> connected a1
               then (a1, e1 @ [LogLog Error (failed_to_connect a1)])
               else (let (a2, e2) = sendRemote B C ev a1 in (a2, e1 @ e2))))
      else sendRemote B C ev a)"

text \<open>Reading a run of effects: the buffers written to the socket, the connector's triggers.\<close>

fun writes :: "effect list \<Rightarrow> string list" where
  "writes [] = []"
| "writes (SocketWrite s # es) = s # writes es"
| "writes (_ # es) = writes es"

fun triggers :: "effect list \<Rightarrow> nat" where
  "triggers [] = 0"
| "triggers (ConnectorTrigger # es) = Suc (triggers es)"
| "triggers (_ # es) = triggers es"

fun opens :: "effect list \<Rightarrow> nat" where
  "opens [] = 0"
| "opens (SocketOpen h p u v # es) = Suc (opens es)"
| "opens (_ # es) = opens es"

fun diagnostics :: "effect list \<Rightarrow> (diag_level \<times> string) list" where
  "diagnostics [] = []"
| "diagnostics (LogLog l m # es) = (l, m) # diagnostics es"
| "diagnostics (_ # es) = diagnostics es"

subsection \<open>The facility numbering of syslog\<close>

text \<open>
  Every line of the source's facility table has the form \<open>(n << 3)\<close> with a facility
  number \<open>n\<close> between 0 and 23. With \<open>syslog.h\<close> the codes come from that header,
  which is not part of the source; that they have the same form is then a condition on
  the platform. The facility number of a code is the code shifted right by three bits.
\<close>

definition facility_macros :: "facility_macro list" where
  "facility_macros =
     [LOG_KERN, LOG_USER, LOG_MAIL, LOG_DAEMON, LOG_AUTH, LOG_SYSLOG, LOG_LPR, LOG_NEWS,
      LOG_UUCP, LOG_CRON, LOG_AUTHPRIV, LOG_FTP, LOG_NTP, LOG_SECURITY, LOG_CONSOLE,
      LOG_LOCAL0, LOG_LOCAL1, LOG_LOCAL2, LOG_LOCAL3, LOG_LOCAL4, LOG_LOCAL5, LOG_LOCAL6,
      LOG_LOCAL7]"

definition facility_number :: "int \<Rightarrow> int" where
  "facility_number c = drop_bit 3 c"

definition syslog_numbering :: "facility_codes \<Rightarrow> bool" where
  "syslog_numbering P \<longleftrightarrow>
     list_all (\<lambda>m. case P m of
                      None \<Rightarrow> True
                    | Some c \<Rightarrow> c = push_bit 3 (facility_number c)
                               \<and> 0 \<le> facility_number c \<and> facility_number c \<le> 23)
       facility_macros"

subsection \<open>The spec's words, for comparison\<close>

text \<open>
  The rendering of a header field as the spec states it (section 8): a field longer than
  the limit is cut to the limit, an empty field is "-", any other field is unchanged.
\<close>

definition header_field :: "nat \<Rightarrow> string \<Rightarrow> string" where
  "header_field limit s =
     (if length s = 0 then ''-'' else if length s > limit then take limit s else s)"

text \<open>Stripping the octet count and its space from a framed buffer.\<close>

definition strip_frame :: "string \<Rightarrow> string" where
  "strip_frame w = drop 1 (dropWhile (\<lambda>c. c \<noteq> CHR '' '') w)"

subsection \<open>Concrete inputs\<close>

text \<open>
  A build without \<open>syslog.h\<close> (so with the source's own facility table), single-threaded
  or not; collaborators whose socket opens or not and whose write succeeds or not, with a
  layout that renders the event's message; an INFO event "hello"; and the appender
  constructed for ident "svc", host 127.0.0.1, port 10514, the default facility and a
  stream transport.
\<close>

definition example_levels :: log_levels where
  "example_levels = \<lparr>INFO_LOG_LEVEL = 20000, WARN_LOG_LEVEL = 30000,
                      ERROR_LOG_LEVEL = 40000, FATAL_LOG_LEVEL = 50000\<rparr>"

definition example_build :: "bool \<Rightarrow> build" where
  "example_build st = \<lparr>SINGLE_THREADED = st, HAVE_SYSLOG_H = False,
                        facility_codes = own_facility_codes, levels = example_levels\<rparr>"

definition example_collaborators :: "bool \<Rightarrow> bool \<Rightarrow> collaborators" where
  "example_collaborators opens_ok write_ok =
     \<lparr>getHostname = (\<lambda>fqdn. Some ''box''),
      getFormattedTime = (\<lambda>fmt t utc. ''2001-06-01T12:00:00.000Z''),
      get_process_id = 4711,
      formatAndAppend = getMessage,
      socket_isOpen = (\<lambda>h p udp v6. opens_ok),
      socket_write = (\<lambda>buf. write_ok)\<rparr>"

definition example_event :: InternalLoggingEvent where
  "example_event = \<lparr>getLogLevel = 20000, getLoggerName = ''root'', getTimestamp = 0,
                     getMessage = ''hello''\<rparr>"

definition example_appender :: "bool \<Rightarrow> bool \<Rightarrow> SysLogAppender" where
  "example_appender st opens_ok =
     fst (SysLogAppender_remote (example_build st) (example_collaborators opens_ok True)
            ''svc'' ''127.0.0.1'' 10514 [] RSTTcp False True)"

definition example_properties :: Properties where
  "example_properties =
     \<lparr>getProperty = (\<lambda>k. if k = ''ident'' then ''svc'' else []),
      getBool = (\<lambda>k. if k = ''udp'' then Some False else None),
      getInt = (\<lambda>k. None),
      getString = (\<lambda>k. if k = ''host'' then Some ''127.0.0.1'' else None)\<rparr>"

section \<open>Auxiliary lemmas\<close>

lemmas priority_codes =
  LOG_EMERG_def LOG_ALERT_def LOG_CRIT_def LOG_ERR_def
  LOG_WARNING_def LOG_NOTICE_def LOG_INFO_def LOG_DEBUG_def

lemmas example_defs = example_levels_def example_build_def example_collaborators_def
  example_event_def example_appender_def

lemmas model_defs = SysLogAppender_remote_def openSocket_def initConnector_def
  appendRemote_def sendRemote_def frame_def remoteMessage_def substrOrNil_def
  parseFacility_def fallback_facility_def toLower_def hostname_or_nil_def
  getSysLogLevel_def priority_codes convertIntegerToString_def
  convertIntegerToNarrowString_def decimal_digits.simps failed_to_connect_def
  remoteTimeFormat_def Let_def

subsection \<open>The decimal conversion\<close>

lemma digit_value_nth: "n < 10 \<Longrightarrow> digit_value (''0123456789'' ! n) = n"
proof -
  assume "n < 10"
  then have "n \<in> {0, 1, 2, 3, 4, 5, 6, 7, 8, 9}"
    by auto
  then show ?thesis
    by (auto simp: digit_value_def)
qed

lemma is_digit_nth: "n < 10 \<Longrightarrow> is_digit (''0123456789'' ! n)"
  unfolding is_digit_def by (rule nth_mem) simp

lemma decimal_value_snoc: "decimal_value (ds @ [c]) = 10 * decimal_value ds + digit_value c"
  by (simp add: decimal_value_def)

lemma decimal_value_digits: "decimal_value (decimal_digits n) = n"
proof (induction n rule: decimal_digits.induct)
  case (1 n)
  show ?case
  proof (cases "n < 10")
    case True
    then show ?thesis
      by (simp add: decimal_digits.simps [of n] decimal_value_def digit_value_nth)
  next
    case False
    with 1 have "decimal_value (decimal_digits (n div 10)) = n div 10" by simp
    with False show ?thesis
      by (simp add: decimal_digits.simps [of n] decimal_value_snoc digit_value_nth)
  qed
qed

lemma decimal_digits_all: "list_all is_digit (decimal_digits n)"
proof (induction n rule: decimal_digits.induct)
  case (1 n)
  show ?case
  proof (cases "n < 10")
    case True
    then show ?thesis
      by (simp add: decimal_digits.simps [of n] is_digit_nth)
  next
    case False
    with 1 have "list_all is_digit (decimal_digits (n div 10))" by simp
    with False show ?thesis
      by (simp add: decimal_digits.simps [of n] is_digit_nth)
  qed
qed

lemma convertIntegerToString_1: "convertIntegerToString 1 = ''1''"
  by (simp add: convertIntegerToString_def decimal_digits.simps)

lemma convertIntegerToString_14: "convertIntegerToString 14 = ''14''"
  by (simp add: convertIntegerToString_def decimal_digits.simps)

lemma digit_not_space: "is_digit c \<Longrightarrow> c \<noteq> CHR '' ''"
  by (auto simp: is_digit_def)

lemma dropWhile_digits:
  "list_all is_digit ds \<Longrightarrow>
     dropWhile (\<lambda>c. c \<noteq> CHR '' '') (ds @ CHR '' '' # body) = CHR '' '' # body"
  by (induction ds) (simp_all add: digit_not_space)

lemma strip_frame_digits:
  "list_all is_digit ds \<Longrightarrow> strip_frame (ds @ '' '' @ body) = body"
  by (simp add: strip_frame_def dropWhile_digits)

subsection \<open>The facility resolver\<close>

lemma parseFacility_name:
  "P m = Some c \<Longrightarrow> parseFacility P (facility_name m) = (c, [])"
  by (cases m) (simp_all add: parseFacility_def)

lemma parseFacility_unrecognized:
  assumes "text \<noteq> []" "\<not> recognized P text"
  shows "parseFacility P text
           = (fallback_facility P, [LogLog Error (''Unknown syslog facility: '' @ text)])"
proof -
  have H: "P m = None \<or> text \<noteq> facility_name m" for m
    using assms(2) by (auto simp: recognized_def)
  show ?thesis
    using assms(1) H [of LOG_AUTH] H [of LOG_AUTHPRIV] H [of LOG_CONSOLE] H [of LOG_CRON]
      H [of LOG_DAEMON] H [of LOG_FTP] H [of LOG_KERN] H [of LOG_LOCAL0] H [of LOG_LOCAL1]
      H [of LOG_LOCAL2] H [of LOG_LOCAL3] H [of LOG_LOCAL4] H [of LOG_LOCAL5] H [of LOG_LOCAL6]
      H [of LOG_LOCAL7] H [of LOG_LPR] H [of LOG_MAIL] H [of LOG_NEWS] H [of LOG_NTP]
      H [of LOG_SECURITY] H [of LOG_SYSLOG] H [of LOG_USER] H [of LOG_UUCP]
    by (simp add: parseFacility_def)
qed

lemma bogus_unrecognized: "\<not> recognized P ''bogus''"
proof -
  have "''bogus'' \<noteq> facility_name m" for m
    by (cases m) simp_all
  then show ?thesis
    by (simp add: recognized_def)
qed

lemma severity_range: "getSysLogLevel L ll \<in> {1, 2, 3, 4, 6, 7}"
  by (simp add: getSysLogLevel_def priority_codes)

lemma parseFacility_code_rule:
  assumes fb: "Q (fallback_facility P)" and code: "\<And>m c. P m = Some c \<Longrightarrow> Q c"
  shows "Q (fst (parseFacility P text))"
proof (cases "recognized P text")
  case True
  then obtain m c where "P m = Some c" "text = facility_name m"
    by (auto simp: recognized_def)
  then show ?thesis
    using code [of m c] by (simp add: parseFacility_name)
next
  case False
  show ?thesis
  proof (cases "text = []")
    case True
    then show ?thesis
      using fb by (simp add: parseFacility_def)
  next
    case nonempty: False
    show ?thesis
      using fb by (simp add: parseFacility_unrecognized [OF nonempty False])
  qed
qed

lemma own_numbering: "syslog_numbering own_facility_codes"
  by (simp add: syslog_numbering_def facility_macros_def facility_number_def)

lemma facility_macros_all: "m \<in> set facility_macros"
  by (cases m) (simp_all add: facility_macros_def)

lemma numbering_code:
  assumes "syslog_numbering P" "P m = Some c"
  shows "c = 8 * facility_number c \<and> 0 \<le> facility_number c \<and> facility_number c \<le> 23"
proof -
  have "c = push_bit 3 (facility_number c) \<and> 0 \<le> facility_number c \<and> facility_number c \<le> 23"
    using assms facility_macros_all [of m]
    by (auto simp: syslog_numbering_def list_all_iff)
  then show ?thesis
    by (simp add: push_bit_eq_mult)
qed

lemma resolver_code_range:
  assumes "syslog_numbering P"
  shows "fst (parseFacility P text) mod 8 = 0 \<and> 0 \<le> fst (parseFacility P text)
         \<and> fst (parseFacility P text) \<le> 184"
proof (rule parseFacility_code_rule)
  show "fallback_facility P mod 8 = 0 \<and> 0 \<le> fallback_facility P \<and> fallback_facility P \<le> 184"
  proof (cases "P LOG_USER")
    case None
    then show ?thesis by (simp add: fallback_facility_def)
  next
    case (Some u)
    with numbering_code [OF assms Some] show ?thesis
      by (simp add: fallback_facility_def) presburger
  qed
next
  fix m c
  assume "P m = Some c"
  with numbering_code [OF assms this] show "c mod 8 = 0 \<and> 0 \<le> c \<and> c \<le> 184"
    by presburger
qed

lemma shifted_or_low:
  fixes k s :: int
  assumes "0 \<le> s" "s < 8"
  shows "s OR 8 * k = 8 * k + s"
proof -
  have s: "take_bit 3 s = s"
    using assms by (simp add: take_bit_int_eq_self)
  have "push_bit 3 k AND take_bit 3 s = 0"
    by (rule bit_eqI) (auto simp: bit_simps)
  then have "push_bit 3 k + take_bit 3 s = push_bit 3 k OR take_bit 3 s"
    by (rule disjunctive_add_eq_or)
  then show ?thesis
    by (simp add: s push_bit_eq_mult or.commute mult.commute)
qed

lemma pri_decode:
  fixes fc s :: int
  assumes "fc mod 8 = 0" and "1 \<le> s" "s \<le> 7"
  shows "s OR fc = fc + s \<and> (s OR fc) mod 8 = s \<and> (s OR fc) - (s OR fc) mod 8 = fc"
proof -
  from assms(1) have fc: "fc = 8 * (fc div 8)"
    by presburger
  have sum: "s OR fc = fc + s"
    using shifted_or_low [of s "fc div 8"] assms(2,3) fc by simp
  moreover have "(fc + s) mod 8 = s"
    using assms by presburger
  ultimately show ?thesis
    by simp
qed

lemma remoteMessage_pri:
  "prefix (''<'' @ convertIntegerToString
                     (getSysLogLevel (levels B) (getLogLevel ev) OR facility a) @ ''>'')
     (remoteMessage B C a ev)"
  by (simp add: remoteMessage_def Let_def)

lemma constructed_properties_facility:
  "(case SysLogAppender_properties B C props of
      Inl x \<Rightarrow> True
    | Inr (a, es) \<Rightarrow>
        facility a = fst (parseFacility (facility_codes B)
                           (toLower (getProperty props ''facility''))))"
  by (simp add: SysLogAppender_properties_def openSocket_def initConnector_def Let_def
        split_def)

subsection \<open>The remote path\<close>

lemma remoteMessage_connected [simp]:
  "remoteMessage B C (a\<lparr>connected := b\<rparr>) ev = remoteMessage B C a ev"
  by (simp add: remoteMessage_def)

lemma appendRemote_connected_writes:
  "connected a \<Longrightarrow>
     writes (snd (appendRemote B C ev a)) = [frame (remoteSyslogType a) (remoteMessage B C a ev)]"
  by (simp add: appendRemote_def sendRemote_def Let_def)

lemma constructed_fields:
  "ident (fst (SysLogAppender_remote B C id' h p f rst v6 fqdn)) = id'
   \<and> facility (fst (SysLogAppender_remote B C id' h p f rst v6 fqdn))
        = fst (parseFacility (facility_codes B) (toLower f))
   \<and> remoteSyslogType (fst (SysLogAppender_remote B C id' h p f rst v6 fqdn)) = rst
   \<and> connected (fst (SysLogAppender_remote B C id' h p f rst v6 fqdn))
        = (\<not> SINGLE_THREADED B \<or> socket_isOpen C h (p mod 65536) (rst = RSTUdp) v6)"
  by (simp add: SysLogAppender_remote_def openSocket_def initConnector_def Let_def split_def)

lemma example_appender_value:
  "example_appender st opens_ok =
     \<lparr>ident = ''svc'', facility = 8, appendFunc = Some AppendRemote, host = ''127.0.0.1'',
      port = 10514, remoteSyslogType = RSTTcp, connected = (\<not> st \<or> opens_ok), ipv6 = False,
      identStr = ''svc'', hostname = ''box''\<rparr>"
  by (simp add: example_defs model_defs)

lemma example_message:
  "remoteMessage (example_build st) (example_collaborators o1 o2) (example_appender st' o3)
       example_event
     = ''<14>1 2001-06-01T12:00:00.000Z box svc 4711 root - hello''"
  by (simp add: example_appender_value)
     (simp add: example_defs model_defs)

section \<open>Properties\<close>

text \<open>
  C1. With the thresholds in their order (INFO, WARN, ERROR, FATAL), every level below
  INFO maps to DEBUG (7), from INFO up to below WARN to INFO (6), from WARN up to below
  ERROR to WARNING (4), from ERROR up to below FATAL to ERR (3), FATAL itself to CRIT (2)
  and every level above FATAL to ALERT (1). No level maps to EMERG (0) or NOTICE (5), and
  the severity number never increases when the level increases.
\<close>

theorem getSysLogLevel_thresholds:
  assumes "levels_ordered L"
  shows "(ll < INFO_LOG_LEVEL L \<longrightarrow> getSysLogLevel L ll = 7)
    \<and> (INFO_LOG_LEVEL L \<le> ll \<and> ll < WARN_LOG_LEVEL L \<longrightarrow> getSysLogLevel L ll = 6)
    \<and> (WARN_LOG_LEVEL L \<le> ll \<and> ll < ERROR_LOG_LEVEL L \<longrightarrow> getSysLogLevel L ll = 4)
    \<and> (ERROR_LOG_LEVEL L \<le> ll \<and> ll < FATAL_LOG_LEVEL L \<longrightarrow> getSysLogLevel L ll = 3)
    \<and> (ll = FATAL_LOG_LEVEL L \<longrightarrow> getSysLogLevel L ll = 2)
    \<and> (FATAL_LOG_LEVEL L < ll \<longrightarrow> getSysLogLevel L ll = 1)
    \<and> getSysLogLevel L ll \<noteq> 0 \<and> getSysLogLevel L ll \<noteq> 5
    \<and> (ll \<le> ll' \<longrightarrow> getSysLogLevel L ll' \<le> getSysLogLevel L ll)
    \<and> [LOG_EMERG, LOG_ALERT, LOG_CRIT, LOG_ERR, LOG_WARNING, LOG_NOTICE, LOG_INFO, LOG_DEBUG]
        = [0, 1, 2, 3, 4, 5, 6, 7]"
  using assms
  by (simp add: getSysLogLevel_def levels_ordered_def priority_codes)

theorem getSysLogLevel_thresholds_witness:
  "levels_ordered example_levels
   \<and> map (getSysLogLevel example_levels) [10000, 20000, 30000, 40000, 50000, 60000]
       = [7, 6, 4, 3, 2, 1]
   \<and> getSysLogLevel example_levels 50000 \<le> getSysLogLevel example_levels 30000"
proof -
  have ord: "levels_ordered example_levels"
    by (simp add: levels_ordered_def example_levels_def)
  have lv: "INFO_LOG_LEVEL example_levels = 20000" "WARN_LOG_LEVEL example_levels = 30000"
    "ERROR_LOG_LEVEL example_levels = 40000" "FATAL_LOG_LEVEL example_levels = 50000"
    by (simp_all add: example_levels_def)
  show ?thesis
    using ord
      getSysLogLevel_thresholds [OF ord, of 10000 10000]
      getSysLogLevel_thresholds [OF ord, of 20000 20000]
      getSysLogLevel_thresholds [OF ord, of 30000 50000]
      getSysLogLevel_thresholds [OF ord, of 40000 40000]
      getSysLogLevel_thresholds [OF ord, of 50000 50000]
      getSysLogLevel_thresholds [OF ord, of 60000 60000]
    by (simp add: lv)
qed



text \<open>
  C3. On every platform, each supported lower-case facility name whose macro the platform
  defines resolves to that macro's value; the empty string resolves to the default, which
  is the value of \<open>LOG_USER\<close> or 0 where the platform has none; and every non-empty
  string that is not such a name resolves to the same default. In particular "bogus" and
  "" resolve to the same code.
\<close>

theorem parseFacility_resolves:
  "(P m = Some c \<longrightarrow> fst (parseFacility P (facility_name m)) = c)
   \<and> fst (parseFacility P []) = (case P LOG_USER of Some u \<Rightarrow> u | None \<Rightarrow> 0)
   \<and> (text \<noteq> [] \<and> \<not> recognized P text \<longrightarrow>
        fst (parseFacility P text) = fst (parseFacility P []))
   \<and> fst (parseFacility P ''bogus'') = fst (parseFacility P [])"
proof -
  have empty: "fst (parseFacility P []) = fallback_facility P"
    by (simp add: parseFacility_def)
  have "fst (parseFacility P ''bogus'') = fallback_facility P"
    using parseFacility_unrecognized [of "''bogus''" P] bogus_unrecognized [of P] by simp
  then show ?thesis
    by (auto simp: parseFacility_name parseFacility_unrecognized empty fallback_facility_def)
qed

theorem parseFacility_resolves_witness:
  "own_facility_codes LOG_LOCAL3 = Some 152
   \<and> fst (parseFacility own_facility_codes ''local3'') = 152
   \<and> fst (parseFacility own_facility_codes []) = 8
   \<and> ''bogus'' \<noteq> [] \<and> \<not> recognized own_facility_codes ''bogus''
   \<and> fst (parseFacility own_facility_codes ''bogus'') = 8"
  using parseFacility_resolves [of own_facility_codes LOG_LOCAL3 152 "''bogus''"]
    bogus_unrecognized [of own_facility_codes]
  by simp

text \<open>
  C4. \<open>substrOrNil\<close> cuts a field longer than its limit to exactly the limit, renders a
  field of length 0 as "-" (so no field is empty, the limit being positive), and returns a
  field of length between 1 and the limit unchanged. The message of the remote path carries
  the host name with limit 255, the ident with limit 48 and the logger name with limit 32,
  each rendered as the spec's \<open>header_field\<close> says, and does not depend on the transport.
\<close>

theorem substrOrNil_fields:
  "(limit < length str \<longrightarrow>
      substrOrNil str limit = take limit str \<and> length (substrOrNil str limit) = limit)
   \<and> (length str = 0 \<longrightarrow> substrOrNil str limit = ''-'')
   \<and> (1 \<le> length str \<and> length str \<le> limit \<longrightarrow> substrOrNil str limit = str)
   \<and> (0 < limit \<longrightarrow> substrOrNil str limit \<noteq> [])
   \<and> remoteMessage B C a ev =
       ''<'' @ convertIntegerToString (getSysLogLevel (levels B) (getLogLevel ev) OR facility a)
       @ ''>1 '' @ getFormattedTime C remoteTimeFormat (getTimestamp ev) True
       @ '' '' @ header_field 255 (hostname a)
       @ '' '' @ header_field 48 (ident a)
       @ '' '' @ convertIntegerToString (get_process_id C)
       @ '' '' @ header_field 32 (getLoggerName ev)
       @ '' - '' @ formatAndAppend C ev
   \<and> remoteMessage B C (a\<lparr>remoteSyslogType := rst\<rparr>) ev = remoteMessage B C a ev"
  by (auto simp: substrOrNil_def header_field_def remoteMessage_def Let_def
        convertIntegerToString_1)

theorem substrOrNil_fields_witness:
  "(3::nat) < length ''abcdef'' \<and> substrOrNil ''abcdef'' 3 = ''abc''
   \<and> length ([] :: string) = 0 \<and> substrOrNil [] 3 = ''-''
   \<and> 1 \<le> length ''ab'' \<and> length ''ab'' \<le> (3::nat) \<and> substrOrNil ''ab'' 3 = ''ab''"
  using
    substrOrNil_fields [of 3 "''abcdef''" "example_build False" "example_collaborators True True"
      "example_appender False True" example_event RSTUdp]
    substrOrNil_fields [of 3 "[]" "example_build False" "example_collaborators True True"
      "example_appender False True" example_event RSTUdp]
    substrOrNil_fields [of 3 "''ab''" "example_build False" "example_collaborators True True"
      "example_appender False True" example_event RSTUdp]
  by simp

text \<open>
  C5. Whenever an append wrote a buffer to the socket and that write failed, the appender
  is left as it was except that the connected flag is false, the one diagnostic is the
  warning about the failed write, a multi-threaded build has triggered the connector
  exactly once (a single-threaded build has no connector), and the failed buffer was the
  only write: the event is neither kept nor sent again.
\<close>

theorem appendRemote_write_failure:
  assumes "w \<in> set (writes (snd (appendRemote B C ev a)))" and "\<not> socket_write C w"
  shows "fst (appendRemote B C ev a) = a\<lparr>connected := False\<rparr>
    \<and> \<not> connected (fst (appendRemote B C ev a))
    \<and> diagnostics (snd (appendRemote B C ev a))
         = [(Warn, ''SysLogAppender::appendRemote- socket write failed'')]
    \<and> triggers (snd (appendRemote B C ev a)) = (if SINGLE_THREADED B then 0 else 1)
    \<and> writes (snd (appendRemote B C ev a)) = [w]
    \<and> w = frame (remoteSyslogType a) (remoteMessage B C a ev)"
proof (cases "connected a")
  case True
  with assms show ?thesis
    by (auto simp: appendRemote_def sendRemote_def Let_def split: if_splits)
next
  case False
  with assms show ?thesis
    by (auto simp: appendRemote_def sendRemote_def openSocket_def Let_def split: if_splits)
qed

theorem appendRemote_write_failure_witness:
  "''56 <14>1 2001-06-01T12:00:00.000Z box svc 4711 root - hello''
     \<in> set (writes (snd (appendRemote (example_build False) (example_collaborators True False)
                            example_event (example_appender False True))))
   \<and> \<not> socket_write (example_collaborators True False)
          ''56 <14>1 2001-06-01T12:00:00.000Z box svc 4711 root - hello''
   \<and> connected (example_appender False True)
   \<and> \<not> connected (fst (appendRemote (example_build False) (example_collaborators True False)
                            example_event (example_appender False True)))
   \<and> triggers (snd (appendRemote (example_build False) (example_collaborators True False)
                            example_event (example_appender False True))) = 1"
proof -
  have c: "connected (example_appender False True)"
    by (simp add: example_appender_value)
  have t: "remoteSyslogType (example_appender False True) = RSTTcp"
    by (simp add: example_appender_value)
  have w: "''56 <14>1 2001-06-01T12:00:00.000Z box svc 4711 root - hello''
     \<in> set (writes (snd (appendRemote (example_build False) (example_collaborators True False)
                            example_event (example_appender False True))))"
    using appendRemote_connected_writes [OF c, of "example_build False"
        "example_collaborators True False" example_event]
    by (simp add: frame_def t example_message convertIntegerToNarrowString_def
          decimal_digits.simps)
  have f: "\<not> socket_write (example_collaborators True False)
          ''56 <14>1 2001-06-01T12:00:00.000Z box svc 4711 root - hello''"
    by (simp add: example_collaborators_def)
  have b: "\<not> SINGLE_THREADED (example_build False)"
    by (simp add: example_build_def)
  show ?thesis
    using w f c b appendRemote_write_failure [OF w f]
    by simp
qed

text \<open>
  C6. An append entered while the connected flag is false: a multi-threaded build triggers
  the connector and returns, with the appender unchanged and nothing built or written; a
  single-threaded build calls \<open>openSocket\<close> once, and if the socket is still not open it
  logs the error "failed to connect to host:port" (once in \<open>openSocket\<close>, once in
  \<open>appendRemote\<close>) and returns without writing.
\<close>

theorem appendRemote_disconnected:
  assumes "\<not> connected a"
  shows "(\<not> SINGLE_THREADED B \<longrightarrow> appendRemote B C ev a = (a, [ConnectorTrigger]))
    \<and> (SINGLE_THREADED B \<longrightarrow> opens (snd (appendRemote B C ev a)) = 1)
    \<and> (SINGLE_THREADED B
         \<and> \<not> socket_isOpen C (host a) (port a mod 65536) (remoteSyslogType a = RSTUdp) (ipv6 a)
        \<longrightarrow> appendRemote B C ev a =
              (a, [SocketOpen (host a) (port a mod 65536) (remoteSyslogType a = RSTUdp) (ipv6 a),
                   LogLog Error (''SysLogAppender- failed to connect to '' @ host a @ '':''
                                 @ convertIntegerToString (port a)),
                   LogLog Error (''SysLogAppender- failed to connect to '' @ host a @ '':''
                                 @ convertIntegerToString (port a))])
            \<and> writes (snd (appendRemote B C ev a)) = []
            \<and> triggers (snd (appendRemote B C ev a)) = 0)"
proof -
  have same: "a\<lparr>connected := False\<rparr> = a"
    using assms by simp
  show ?thesis
    using assms
    by (simp add: appendRemote_def openSocket_def sendRemote_def failed_to_connect_def
          Let_def same split_def)
qed

theorem appendRemote_disconnected_witness:
  "\<not> connected (example_appender True False)
   \<and> SINGLE_THREADED (example_build True)
   \<and> \<not> socket_isOpen (example_collaborators False True) (host (example_appender True False))
         (port (example_appender True False) mod 65536)
         (remoteSyslogType (example_appender True False) = RSTUdp)
         (ipv6 (example_appender True False))
   \<and> diagnostics (snd (appendRemote (example_build True) (example_collaborators False True)
                          example_event (example_appender True False)))
       = [(Error, ''SysLogAppender- failed to connect to 127.0.0.1:10514''),
          (Error, ''SysLogAppender- failed to connect to 127.0.0.1:10514'')]
   \<and> writes (snd (appendRemote (example_build True) (example_collaborators False True)
                          example_event (example_appender True False))) = []
   \<and> \<not> connected (example_appender False True\<lparr>connected := False\<rparr>)
   \<and> \<not> SINGLE_THREADED (example_build False)
   \<and> snd (appendRemote (example_build False) (example_collaborators True True)
                          example_event (example_appender False True\<lparr>connected := False\<rparr>))
       = [ConnectorTrigger]"
proof -
  have d: "\<not> connected (example_appender True False)"
    by (simp add: example_appender_value)
  have d': "\<not> connected (example_appender False True\<lparr>connected := False\<rparr>)"
    by simp
  have st: "SINGLE_THREADED (example_build True)" "\<not> SINGLE_THREADED (example_build False)"
    by (simp_all add: example_build_def)
  have cl: "\<not> socket_isOpen (example_collaborators False True) (host (example_appender True False))
         (port (example_appender True False) mod 65536)
         (remoteSyslogType (example_appender True False) = RSTUdp)
         (ipv6 (example_appender True False))"
    by (simp add: example_collaborators_def)
  have h: "host (example_appender True False) = ''127.0.0.1''"
    and p: "convertIntegerToString (port (example_appender True False)) = ''10514''"
    by (simp_all add: example_appender_value convertIntegerToString_def decimal_digits.simps)
  show ?thesis
    using d d' st cl
      appendRemote_disconnected [OF d, of "example_build True" "example_collaborators False True"
        example_event]
      appendRemote_disconnected [OF d', of "example_build False" "example_collaborators True True"
        example_event]
    by (simp add: h p)
qed

text \<open>
  C7, as the code has it. For a non-empty name that the platform does not recognize, the
  resolver returns the default facility code and logs exactly one diagnostic, the line
  "Unknown syslog facility: " followed by the name, at the error level of the diagnostic
  sink (not as a warning). It always returns a code, and a constructor given such a name
  completes with the default facility.
\<close>

theorem parseFacility_unknown_logs_error:
  assumes "text \<noteq> []" and "\<not> recognized P text"
  shows "parseFacility P text
           = (fallback_facility P, [LogLog Error (''Unknown syslog facility: '' @ text)])
     \<and> diagnostics (snd (parseFacility P text))
           = [(Error, ''Unknown syslog facility: '' @ text)]
     \<and> fst (parseFacility P text) = fst (parseFacility P [])
     \<and> (facility_codes B = P \<and> toLower f = text \<longrightarrow>
          facility (fst (SysLogAppender_remote B C id' h p f rst v6 fqdn)) = fallback_facility P)"
  using parseFacility_unrecognized [OF assms]
    constructed_fields [of B C id' h p f rst v6 fqdn]
  by (auto simp: parseFacility_def [of P "[]"])

theorem parseFacility_unknown_logs_error_witness:
  "''bogus'' \<noteq> [] \<and> \<not> recognized own_facility_codes ''bogus''
   \<and> parseFacility own_facility_codes ''bogus''
       = (8, [LogLog Error ''Unknown syslog facility: bogus''])
   \<and> facility_codes (example_build False) = own_facility_codes
   \<and> toLower ''BoGuS'' = ''bogus''
   \<and> facility (fst (SysLogAppender_remote (example_build False)
          (example_collaborators True True) ''svc'' ''127.0.0.1'' 10514 ''BoGuS'' RSTTcp
          False True)) = 8"
proof -
  have ne: "''bogus'' \<noteq> []"
    by simp
  have low: "toLower ''BoGuS'' = ''bogus''"
    by (simp add: toLower_def tolower_char_def)
  have codes: "facility_codes (example_build False) = own_facility_codes"
    by (simp add: example_build_def)
  have fb: "fallback_facility own_facility_codes = 8"
    by (simp add: fallback_facility_def)
  show ?thesis
    using ne low codes bogus_unrecognized [of own_facility_codes]
      parseFacility_unknown_logs_error [OF ne bogus_unrecognized,
        of own_facility_codes "example_build False" "''BoGuS''"
           "example_collaborators True True" "''svc''" "''127.0.0.1''" 10514 RSTTcp False True]
    by (simp add: fb)
qed

text \<open>
  The claim as written fails at the name "bogus": the one diagnostic of the resolution is
  an error line, and there is no warning among the diagnostics.
\<close>

theorem unknown_facility_no_warning:
  "diagnostics (snd (parseFacility own_facility_codes ''bogus''))
     = [(Error, ''Unknown syslog facility: bogus'')]
   \<and> (Warn, ''Unknown syslog facility: bogus'')
       \<notin> set (diagnostics (snd (parseFacility own_facility_codes ''bogus'')))
   \<and> map fst (diagnostics (snd (parseFacility own_facility_codes ''bogus''))) \<noteq> [Warn]"
  by (simp add: parseFacility_def)

text \<open>
  C8. After the constructor for a remote collector, a multi-threaded build has the
  connected flag true whatever the socket did, the connector having been started; a
  single-threaded build has it true exactly when the socket that \<open>openSocket\<close>
  constructed is open. The same holds for the constructor from properties when the
  configured host is not empty: it then returns an appender for that host, with the flag
  as described.
\<close>

theorem construction_connected:
  "connected (fst (SysLogAppender_remote B C id' h p f rst v6 fqdn))
     = (\<not> SINGLE_THREADED B \<or> socket_isOpen C h (p mod 65536) (rst = RSTUdp) v6)
   \<and> (\<not> SINGLE_THREADED B \<longrightarrow>
        connected (fst (SysLogAppender_remote B C id' h p f rst v6 fqdn))
        \<and> ConnectorStart \<in> set (snd (SysLogAppender_remote B C id' h p f rst v6 fqdn)))
   \<and> (SINGLE_THREADED B \<longrightarrow>
        connected (fst (SysLogAppender_remote B C id' h p f rst v6 fqdn))
          = socket_isOpen C h (p mod 65536) (rst = RSTUdp) v6)
   \<and> (configured_host props \<noteq> [] \<longrightarrow>
        (case SysLogAppender_properties B C props of
           Inl x \<Rightarrow> False
         | Inr (a, es) \<Rightarrow>
             host a = configured_host props
             \<and> connected a
                 = (\<not> SINGLE_THREADED B
                    \<or> socket_isOpen C (host a) (port a mod 65536)
                         (remoteSyslogType a = RSTUdp) (ipv6 a))
             \<and> (\<not> SINGLE_THREADED B \<longrightarrow> connected a \<and> ConnectorStart \<in> set es)
             \<and> (SINGLE_THREADED B \<longrightarrow>
                  connected a
                    = socket_isOpen C (host a) (port a mod 65536)
                        (remoteSyslogType a = RSTUdp) (ipv6 a))))"
  by (simp add: SysLogAppender_remote_def SysLogAppender_properties_def openSocket_def
        initConnector_def Let_def split_def)

theorem construction_connected_witness:
  "\<not> SINGLE_THREADED (example_build False)
   \<and> connected (fst (SysLogAppender_remote (example_build False)
          (example_collaborators False True) ''svc'' ''127.0.0.1'' 10514 [] RSTTcp False True))
   \<and> SINGLE_THREADED (example_build True)
   \<and> \<not> connected (fst (SysLogAppender_remote (example_build True)
          (example_collaborators False True) ''svc'' ''127.0.0.1'' 10514 [] RSTTcp False True))
   \<and> connected (fst (SysLogAppender_remote (example_build True)
          (example_collaborators True True) ''svc'' ''127.0.0.1'' 10514 [] RSTTcp False True))
   \<and> configured_host example_properties \<noteq> []
   \<and> (case SysLogAppender_properties (example_build True)
              (example_collaborators False True) example_properties of
         Inl x \<Rightarrow> False
       | Inr (a, es) \<Rightarrow> host a = ''127.0.0.1'' \<and> \<not> connected a)
   \<and> (case SysLogAppender_properties (example_build False)
              (example_collaborators False True) example_properties of
         Inl x \<Rightarrow> False
       | Inr (a, es) \<Rightarrow> host a = ''127.0.0.1'' \<and> connected a)"
proof -
  have st: "\<not> SINGLE_THREADED (example_build False)" "SINGLE_THREADED (example_build True)"
    by (simp_all add: example_build_def)
  have sock: "socket_isOpen (example_collaborators b True) = (\<lambda>h p udp v6. b)" for b
    by (simp add: example_collaborators_def)
  have h: "configured_host example_properties = ''127.0.0.1''"
    by (simp add: configured_host_def example_properties_def)
  show ?thesis
    using st
      construction_connected [of "example_build False" "example_collaborators False True"
        "''svc''" "''127.0.0.1''" 10514 "[]" RSTTcp False True example_properties]
      construction_connected [of "example_build True" "example_collaborators False True"
        "''svc''" "''127.0.0.1''" 10514 "[]" RSTTcp False True example_properties]
      construction_connected [of "example_build True" "example_collaborators True True"
        "''svc''" "''127.0.0.1''" 10514 "[]" RSTTcp False True example_properties]
    by (auto simp: sock h split: sum.splits)
qed

text \<open>
  C9, as the code has it. With the source's own facility table, an appender constructed
  for ident "svc", host 127.0.0.1, any port, the default facility and the stream
  transport, whose state after construction is connected, writes for an INFO event one
  buffer: the octet count, a space and the message. After stripping the count and the
  space the message starts with the PRI field \<open><14>\<close> (user facility 8 combined with
  severity 6) and the version, not with \<open><70>\<close>; it contains "svc"; and it ends with
  "hello" whenever the layout's text for the event ends with "hello".
\<close>

theorem end_to_end_pri_14:
  assumes "facility_codes B = own_facility_codes"
    and "INFO_LOG_LEVEL (levels B) < WARN_LOG_LEVEL (levels B)"
    and "getLogLevel ev = INFO_LOG_LEVEL (levels B)"
    and "suffix ''hello'' (formatAndAppend C ev)"
    and "\<not> SINGLE_THREADED B \<or> socket_isOpen C ''127.0.0.1'' (p mod 65536) False v6"
  shows "let a = fst (SysLogAppender_remote B C ''svc'' ''127.0.0.1'' p [] RSTTcp v6 fqdn);
             body = remoteMessage B C a ev;
             w = convertIntegerToNarrowString (length body) @ '' '' @ body
         in writes (snd (appendRemote B C ev a)) = [w]
            \<and> strip_frame w = body
            \<and> prefix ''<14>1 '' body
            \<and> \<not> prefix ''<70>'' body
            \<and> sublist ''svc'' body
            \<and> suffix ''hello'' body"
proof -
  define a where "a = fst (SysLogAppender_remote B C ''svc'' ''127.0.0.1'' p [] RSTTcp v6 fqdn)"
  define body where "body = remoteMessage B C a ev"
  define w where "w = convertIntegerToNarrowString (length body) @ '' '' @ body"
  have fields: "ident a = ''svc''" "facility a = 8" "remoteSyslogType a = RSTTcp" "connected a"
    using assms(1,5) constructed_fields [of B C "''svc''" "''127.0.0.1''" p "[]" RSTTcp v6 fqdn]
    by (simp_all add: a_def parseFacility_def toLower_def fallback_facility_def)
  have sev: "getSysLogLevel (levels B) (getLogLevel ev) = 6"
    using assms(2,3) by (simp add: getSysLogLevel_def priority_codes)
  have body_eq: "body =
      (''<14>1 '' @ getFormattedTime C remoteTimeFormat (getTimestamp ev) True @ '' ''
        @ substrOrNil (hostname a) 255 @ '' '') @ ''svc'' @
      ('' '' @ convertIntegerToString (get_process_id C) @ '' ''
        @ substrOrNil (getLoggerName ev) 32 @ '' - '' @ formatAndAppend C ev)"
    by (simp add: body_def remoteMessage_def fields sev substrOrNil_def
          convertIntegerToString_14 convertIntegerToString_1)
  have "writes (snd (appendRemote B C ev a)) = [w]"
    using appendRemote_connected_writes [OF fields(4), of B C ev]
    by (simp add: frame_def fields w_def body_def)
  moreover have "strip_frame w = body"
    unfolding w_def convertIntegerToNarrowString_def
    by (rule strip_frame_digits) (rule decimal_digits_all)
  moreover have "prefix ''<14>1 '' body"
    by (subst body_eq) simp
  moreover have "\<not> prefix ''<70>'' body"
    by (subst body_eq) simp
  moreover have "sublist ''svc'' body"
    by (subst body_eq) (rule sublist_appendI)
  moreover have "suffix ''hello'' body"
    by (subst body_eq) (intro suffix_appendI assms(4))
  ultimately show ?thesis
    by (simp add: a_def body_def w_def Let_def)
qed

theorem end_to_end_pri_14_witness:
  "facility_codes (example_build False) = own_facility_codes
   \<and> INFO_LOG_LEVEL (levels (example_build False)) < WARN_LOG_LEVEL (levels (example_build False))
   \<and> getLogLevel example_event = INFO_LOG_LEVEL (levels (example_build False))
   \<and> suffix ''hello'' (formatAndAppend (example_collaborators True True) example_event)
   \<and> \<not> SINGLE_THREADED (example_build False)
   \<and> writes (snd (appendRemote (example_build False) (example_collaborators True True)
         example_event (example_appender False True)))
       = [''56 <14>1 2001-06-01T12:00:00.000Z box svc 4711 root - hello'']
   \<and> prefix ''<14>1 '' ''<14>1 2001-06-01T12:00:00.000Z box svc 4711 root - hello''"
proof -
  have h1: "facility_codes (example_build False) = own_facility_codes"
    and h2: "INFO_LOG_LEVEL (levels (example_build False))
               < WARN_LOG_LEVEL (levels (example_build False))"
    and h3: "getLogLevel example_event = INFO_LOG_LEVEL (levels (example_build False))"
    and h5: "\<not> SINGLE_THREADED (example_build False)
               \<or> socket_isOpen (example_collaborators True True) ''127.0.0.1''
                    (10514 mod 65536) False False"
    by (simp_all add: example_defs)
  have h4: "suffix ''hello'' (formatAndAppend (example_collaborators True True) example_event)"
    by (simp add: example_defs)
  have st: "\<not> SINGLE_THREADED (example_build False)"
    by (simp add: example_build_def)
  have app: "fst (SysLogAppender_remote (example_build False) (example_collaborators True True)
               ''svc'' ''127.0.0.1'' 10514 [] RSTTcp False True) = example_appender False True"
    by (simp add: example_appender_def)
  show ?thesis
    using h1 h2 h3 h4 st end_to_end_pri_14 [OF h1 h2 h3 h4 h5, of True]
    by (simp add: app example_message convertIntegerToNarrowString_def decimal_digits.simps
          Let_def)
qed

text \<open>
  The claim as written fails on the example: the buffer written for the INFO event
  "hello" is the one below, and what follows its octet count starts with \<open><14>\<close>, not
  with \<open><70>\<close>.
\<close>

theorem end_to_end_not_pri_70:
  "writes (snd (appendRemote (example_build False) (example_collaborators True True)
                  example_event (example_appender False True)))
     = [''56 <14>1 2001-06-01T12:00:00.000Z box svc 4711 root - hello'']
   \<and> strip_frame ''56 <14>1 2001-06-01T12:00:00.000Z box svc 4711 root - hello''
       = ''<14>1 2001-06-01T12:00:00.000Z box svc 4711 root - hello''
   \<and> \<not> prefix ''<70>'' ''<14>1 2001-06-01T12:00:00.000Z box svc 4711 root - hello''"
  by (simp add: example_defs model_defs strip_frame_def)

text \<open>
  C10. On a platform whose facility codes follow the syslog numbering (a facility number
  between 0 and 23, shifted left by three bits), as the source's own table does, take any
  appender whose facility field holds a code that the resolver returned, and any event.
  The code is a multiple of 8 between 0 and 184 and the severity of \<open>getSysLogLevel\<close>
  lies between 1 and 7. So the PRI value \<open>level | facility\<close> that \<open>appendRemote\<close>
  prints at the head of the message is their sum, its remainder modulo 8 is the severity,
  and the PRI value less that remainder is the facility code; the printed digits denote
  that sum, and a connected append writes the message framed. Both constructors store the
  resolver's code for the configured name in the facility field.
\<close>

theorem pri_decodes:
  assumes "syslog_numbering (facility_codes B)"
    and "facility a = fst (parseFacility (facility_codes B) text)"
  shows "(let fc = facility a;
              s = getSysLogLevel (levels B) (getLogLevel ev);
              pri = s OR fc
          in fc mod 8 = 0 \<and> 0 \<le> fc \<and> fc \<le> 184 \<and> 1 \<le> s \<and> s \<le> 7
             \<and> pri = fc + s \<and> pri mod 8 = s \<and> pri - pri mod 8 = fc
             \<and> prefix (''<'' @ convertIntegerToString pri @ ''>'') (remoteMessage B C a ev)
             \<and> decimal_value (convertIntegerToString pri) = nat (fc + s)
             \<and> (connected a \<longrightarrow>
                  writes (snd (appendRemote B C ev a))
                    = [frame (remoteSyslogType a) (remoteMessage B C a ev)]))
     \<and> facility (fst (SysLogAppender_remote B C id' h p f rst v6 fqdn))
         = fst (parseFacility (facility_codes B) (toLower f))
     \<and> (case SysLogAppender_properties B C props of
           Inl x \<Rightarrow> True
         | Inr (a', es) \<Rightarrow>
             facility a' = fst (parseFacility (facility_codes B)
                                  (toLower (getProperty props ''facility''))))"
proof -
  define fc where "fc = facility a"
  define s where "s = getSysLogLevel (levels B) (getLogLevel ev)"
  have range: "fc mod 8 = 0 \<and> 0 \<le> fc \<and> fc \<le> 184"
    unfolding fc_def assms(2) by (rule resolver_code_range [OF assms(1)])
  have "s \<in> {1, 2, 3, 4, 6, 7}"
    unfolding s_def by (rule severity_range)
  then have sev: "1 \<le> s \<and> s \<le> 7"
    by auto
  have dec: "s OR fc = fc + s \<and> (s OR fc) mod 8 = s \<and> (s OR fc) - (s OR fc) mod 8 = fc"
    using pri_decode [of fc s] range sev by blast
  have "0 \<le> fc + s"
    using range sev by simp
  then have digits: "decimal_value (convertIntegerToString (s OR fc)) = nat (fc + s)"
    using dec by (simp add: convertIntegerToString_def decimal_value_digits)
  have head: "prefix (''<'' @ convertIntegerToString (s OR fc) @ ''>'') (remoteMessage B C a ev)"
    unfolding s_def fc_def by (rule remoteMessage_pri)
  have first: "let fc = facility a;
              s = getSysLogLevel (levels B) (getLogLevel ev);
              pri = s OR fc
          in fc mod 8 = 0 \<and> 0 \<le> fc \<and> fc \<le> 184 \<and> 1 \<le> s \<and> s \<le> 7
             \<and> pri = fc + s \<and> pri mod 8 = s \<and> pri - pri mod 8 = fc
             \<and> prefix (''<'' @ convertIntegerToString pri @ ''>'') (remoteMessage B C a ev)
             \<and> decimal_value (convertIntegerToString pri) = nat (fc + s)
             \<and> (connected a \<longrightarrow>
                  writes (snd (appendRemote B C ev a))
                    = [frame (remoteSyslogType a) (remoteMessage B C a ev)])"
    using range sev dec digits head appendRemote_connected_writes [of a B C ev]
    unfolding Let_def fc_def s_def by blast
  have second: "facility (fst (SysLogAppender_remote B C id' h p f rst v6 fqdn))
         = fst (parseFacility (facility_codes B) (toLower f))"
    using constructed_fields [of B C id' h p f rst v6 fqdn] by blast
  from first second constructed_properties_facility [where B = B and C = C and props = props]
  show ?thesis
    by blast
qed

theorem pri_decodes_witness:
  "syslog_numbering (facility_codes (example_build False))
   \<and> facility (example_appender False True)
       = fst (parseFacility (facility_codes (example_build False)) [])
   \<and> facility (example_appender False True) = 8
   \<and> getSysLogLevel (levels (example_build False)) (getLogLevel example_event) = 6
   \<and> (6 OR 8) = (14 :: int)
   \<and> prefix ''<14>'' (remoteMessage (example_build False) (example_collaborators True True)
                        (example_appender False True) example_event)
   \<and> connected (example_appender False True)
   \<and> writes (snd (appendRemote (example_build False) (example_collaborators True True)
                    example_event (example_appender False True)))
       = [''56 <14>1 2001-06-01T12:00:00.000Z box svc 4711 root - hello'']"
proof -
  have num: "syslog_numbering (facility_codes (example_build False))"
    by (simp add: example_build_def own_numbering)
  have fac: "facility (example_appender False True)
               = fst (parseFacility (facility_codes (example_build False)) [])"
    by (simp add: example_appender_value example_build_def parseFacility_def
          fallback_facility_def)
  have f8: "facility (example_appender False True) = 8"
    and con: "connected (example_appender False True)"
    and tcp: "remoteSyslogType (example_appender False True) = RSTTcp"
    by (simp_all add: example_appender_value)
  have s6: "getSysLogLevel (levels (example_build False)) (getLogLevel example_event) = 6"
    by (simp add: example_defs getSysLogLevel_def priority_codes)
  show ?thesis
    using num fac f8 con s6
      pri_decodes [OF num fac, where ev = example_event
        and C = "example_collaborators True True" and id' = "''svc''" and h = "''127.0.0.1''"
        and p = 10514 and f = "[]" and rst = RSTTcp and ?v6.0 = False and fqdn = True
        and props = example_properties]
    by (simp add: Let_def convertIntegerToString_14 example_message frame_def tcp
          convertIntegerToNarrowString_def decimal_digits.simps)
qed

end
